theory Spec2Isabelle
  imports Main "HOL-Library.Word"
begin

section \<open>JavaScript strings\<close>

text \<open>
  A JavaScript string is a sequence of UTF-16 code units; \<open>length\<close>, \<open>trim\<close>,
  \<open>split\<close>, \<open>includes\<close> and a regular expression without the \<open>u\<close> flag all work
  on code units. The script's words are written here by their code units, since the
  Arabic block (U+0600 to U+06FF) lies in the Basic Multilingual Plane.
\<close>

type_synonym jsstring = "16 word list"

definition isWhiteSpace :: "16 word \<Rightarrow> bool" where
  \<comment> \<open>The code units that \<open>String.prototype.trim\<close> strips: ECMAScript WhiteSpace and
      LineTerminator.\<close>
  "isWhiteSpace c \<longleftrightarrow>
     c = 0x0009 \<or> c = 0x000A \<or> c = 0x000B \<or> c = 0x000C \<or> c = 0x000D \<or> c = 0x0020 \<or>
     c = 0x00A0 \<or> c = 0x1680 \<or> (0x2000 \<le> c \<and> c \<le> 0x200A) \<or> c = 0x2028 \<or>
     c = 0x2029 \<or> c = 0x202F \<or> c = 0x205F \<or> c = 0x3000 \<or> c = 0xFEFF"

definition trim :: "jsstring \<Rightarrow> jsstring" where
  "trim s = rev (dropWhile isWhiteSpace (rev (dropWhile isWhiteSpace s)))"

definition newline :: "16 word" where
  "newline = 0x000A"

fun split :: "16 word \<Rightarrow> jsstring \<Rightarrow> jsstring list" where
  \<comment> \<open>\<open>s.split(sep)\<close> for a separator of one code unit; the empty string gives one
      empty piece.\<close>
  "split sep [] = [[]]"
| "split sep (c # cs) =
     (if c = sep then [] # split sep cs
      else (case split sep cs of
              [] \<Rightarrow> [[c]]
            | l # ls \<Rightarrow> (c # l) # ls))"

fun join :: "16 word \<Rightarrow> jsstring list \<Rightarrow> jsstring" where
  \<comment> \<open>\<open>xs.join(sep)\<close> for a separator of one code unit.\<close>
  "join sep [] = []"
| "join sep [x] = x"
| "join sep (x # y # ys) = x @ sep # join sep (y # ys)"

section \<open>Word format\<close>

definition arabicClass :: "16 word \<Rightarrow> bool" where
  \<comment> \<open>The character class of \<open>arabicRegex\<close>: U+0621 to U+064A and U+0660 to U+0669.\<close>
  "arabicClass c \<longleftrightarrow> (0x0621 \<le> c \<and> c \<le> 0x064A) \<or> (0x0660 \<le> c \<and> c \<le> 0x0669)"

definition arabicRegex_test :: "jsstring \<Rightarrow> bool" where
  \<comment> \<open>\<open>arabicRegex.test(s)\<close>, the class between \<open>^\<close> and \<open>+$\<close>: the whole string,
      one or more code units of the class. The expression has no \<open>g\<close> or \<open>y\<close> flag, so
      \<open>test\<close> keeps no position between calls.\<close>
  "arabicRegex_test s \<longleftrightarrow> s \<noteq> [] \<and> list_all arabicClass s"

definition isValidWordFormat :: "jsstring \<Rightarrow> bool" where
  "isValidWordFormat word \<longleftrightarrow> length word = 3 \<and> arabicRegex_test word"

section \<open>Text form of the dictionary\<close>

definition toText :: "jsstring list \<Rightarrow> jsstring" where
  \<comment> \<open>\<open>dictionary.join('\n')\<close> of \<open>exportDictionary\<close>.\<close>
  "toText ws = join newline ws"

definition loadFromText :: "jsstring \<Rightarrow> jsstring list" where
  \<comment> \<open>\<open>text.trim().split('\n').map(word => word.trim()).filter(word => word.length > 0)\<close>,
      the expression of \<open>initGame\<close> and of \<open>handleFileImport\<close>.\<close>
  "loadFromText content =
     filter (\<lambda>word. length word > 0) (map trim (split newline (trim content)))"

section \<open>The stored item\<close>

text \<open>
  The script stores \<open>JSON.stringify(dictionary)\<close>. For an array of strings that is the
  quoted strings between brackets, separated by commas. Quoting escapes the double quote,
  the backslash and the code units below U+0020, and writes a surrogate that is not part
  of a pair as \<open>\u\<close> and four lower-case hexadecimal digits; every other code unit
  stands for itself.
\<close>

definition hexDigit :: "nat \<Rightarrow> 16 word" where
  "hexDigit n = (if n < 10 then 0x0030 + of_nat n else 0x0061 + of_nat (n - 10))"

definition unicodeEscape :: "16 word \<Rightarrow> jsstring" where
  "unicodeEscape c =
     [0x005C, 0x0075, hexDigit (unat c div 4096), hexDigit (unat c div 256 mod 16),
      hexDigit (unat c div 16 mod 16), hexDigit (unat c mod 16)]"

definition isLeadingSurrogate :: "16 word \<Rightarrow> bool" where
  "isLeadingSurrogate c \<longleftrightarrow> 0xD800 \<le> c \<and> c \<le> 0xDBFF"

definition isTrailingSurrogate :: "16 word \<Rightarrow> bool" where
  "isTrailingSurrogate c \<longleftrightarrow> 0xDC00 \<le> c \<and> c \<le> 0xDFFF"

fun quoteJSONChars :: "jsstring \<Rightarrow> jsstring" where
  "quoteJSONChars [] = []"
| "quoteJSONChars (c # cs) =
     (if c = 0x0008 then [0x005C, 0x0062] @ quoteJSONChars cs
      else if c = 0x0009 then [0x005C, 0x0074] @ quoteJSONChars cs
      else if c = 0x000A then [0x005C, 0x006E] @ quoteJSONChars cs
      else if c = 0x000C then [0x005C, 0x0066] @ quoteJSONChars cs
      else if c = 0x000D then [0x005C, 0x0072] @ quoteJSONChars cs
      else if c = 0x0022 then [0x005C, 0x0022] @ quoteJSONChars cs
      else if c = 0x005C then [0x005C, 0x005C] @ quoteJSONChars cs
      else if c < 0x0020 then unicodeEscape c @ quoteJSONChars cs
      else if isLeadingSurrogate c then
        (case cs of
           [] \<Rightarrow> unicodeEscape c
         | d # ds \<Rightarrow>
             if isTrailingSurrogate d then c # d # quoteJSONChars ds
             else unicodeEscape c @ quoteJSONChars cs)
      else if isTrailingSurrogate c then unicodeEscape c @ quoteJSONChars cs
      else c # quoteJSONChars cs)"

definition quoteJSONString :: "jsstring \<Rightarrow> jsstring" where
  "quoteJSONString v = [0x0022] @ quoteJSONChars v @ [0x0022]"

definition JSON_stringify :: "jsstring list \<Rightarrow> jsstring" where
  \<comment> \<open>\<open>JSON.stringify(xs)\<close> for an array of strings\<close>
  "JSON_stringify xs = [0x005B] @ join 0x002C (map quoteJSONString xs) @ [0x005D]"

section \<open>Messages and outcomes\<close>

text \<open>
  The functions of the script return nothing: what they decide is the message they
  show. A message is modelled by a constructor for each message text of the script,
  with the values its template inserts; the outcome names the branch taken.
  In \<open>script.js\<close> the message texts are at these lines: \<open>PleaseEnterWord\<close> 89, 271, 395;
  \<open>ThreeArabicLettersOnly\<close> 94, 276; \<open>WordCorrect\<close> 112, 418 (the random phrase, then
  the word); \<open>WordNotInDictionary\<close> 115, 421; \<open>WordAlreadyInDictionary\<close> 282;
  \<open>WordAdded\<close> 290; \<open>ExportDone\<close> 331; \<open>ExportFailed\<close> 334; \<open>ImportDone\<close> 366 (the
  number of imported words); \<open>ImportFailed\<close> 372; \<open>FileReadFailed\<close> 377;
  \<open>DictionaryLoadFailed\<close> 204. Writes to the console and moving the focus change
  nothing the script reads, and are left out.
\<close>

datatype message =
    PleaseEnterWord
  | ThreeArabicLettersOnly
  | WordCorrect "jsstring option" jsstring
  | WordNotInDictionary jsstring
  | WordAlreadyInDictionary jsstring
  | WordAdded jsstring
  | ExportDone
  | ExportFailed
  | ImportDone nat
  | ImportFailed
  | FileReadFailed
  | DictionaryLoadFailed

datatype outcome = Empty | InvalidFormat | Correct | Incorrect

datatype add_outcome = AddEmpty | AddInvalidFormat | AlreadyExists | Added

datatype import_outcome = NoFile | FileReadFailure | ImportFailure | Imported nat

datatype fetch_result = FetchFailed | FetchOk jsstring

datatype parse_result = SyntaxError | ParsedWords "jsstring list"

datatype file_read = ReadFailed | ReadOk jsstring

section \<open>State\<close>

text \<open>
  The globals \<open>score\<close> and \<open>dictionary\<close> and the page elements the script reads and
  writes. The score is a JavaScript number that only ever receives whole increments; it is
  read as an integer (whole numbers below \<open>2 ^ 53\<close> are exact in a JavaScript number).
  A text that the script has not written yet is \<open>None\<close>.
\<close>

record game =
  score :: int
  dictionary :: "jsstring list"
  wordInput :: jsstring
  resultArea_text :: "message option"
  resultArea_class :: string
  scoreDisplay :: "int option"

text \<open>
  The script with the teacher panel has more elements, and the browser's storage:
  \<open>localStorage\<close> is the text stored under the key \<open>arabicDictionary\<close>, as
  \<open>getItem\<close> returns it, and \<open>None\<close> when the key is absent (\<open>getItem\<close> returns
  \<open>null\<close>). What \<open>JSON.parse\<close> makes of a stored text is an answer of the browser:
  it throws, or it returns the value the text encodes. The returned value is taken to be
  an array of strings, as \<open>dictionary\<close> is everywhere in the script.
\<close>

record teacher_game = game +
  newWordInput :: jsstring
  teacherResultArea_text :: "message option"
  teacherResultArea_class :: string
  teacherPanel_hidden :: bool
  importDictionaryInput :: jsstring
  localStorage :: "jsstring option"
  fetched :: "string list"
  downloads :: "(string \<times> jsstring) list"

section \<open>The script without the teacher panel\<close>

definition predefinedDictionary :: "jsstring list" where
  "predefinedDictionary =
     [[0x0643, 0x062A, 0x0628], [0x0644, 0x0639, 0x0628], [0x0630, 0x0647, 0x0628],
      [0x062C, 0x0644, 0x0633], [0x0641, 0x062A, 0x062D], [0x0639, 0x0644, 0x0645],
      [0x062F, 0x0631, 0x0633], [0x0642, 0x0631, 0x0623], [0x0646, 0x0627, 0x0645],
      [0x0623, 0x0643, 0x0644], [0x0634, 0x0631, 0x0628], [0x0631, 0x0643, 0x0636],
      [0x0633, 0x0628, 0x062D], [0x063A, 0x0646, 0x0649], [0x0631, 0x0633, 0x0645],
      [0x0642, 0x0635, 0x0629], [0x0642, 0x0644, 0x0645], [0x0643, 0x062A, 0x0627, 0x0628],
      [0x0645, 0x062F, 0x0631, 0x0633, 0x0629], [0x0637, 0x0627, 0x0644, 0x0628]]"

definition initGame_predefined :: "'a game_scheme \<Rightarrow> 'a game_scheme" where
  \<comment> \<open>\<open>initGame\<close> of the first script: the assignment cannot throw.\<close>
  "initGame_predefined s = s\<lparr>dictionary := predefinedDictionary\<rparr>"

definition isWordInDictionary :: "'a game_scheme \<Rightarrow> jsstring \<Rightarrow> bool" where
  \<comment> \<open>\<open>dictionary.includes(word)\<close>\<close>
  "isWordInDictionary s word \<longleftrightarrow> word \<in> set (dictionary s)"

definition updateScore :: "int \<Rightarrow> 'a game_scheme \<Rightarrow> 'a game_scheme" where
  "updateScore points s = s\<lparr>score := score s + points, scoreDisplay := Some (score s + points)\<rparr>"

definition showResult :: "message \<Rightarrow> string \<Rightarrow> 'a game_scheme \<Rightarrow> 'a game_scheme" where
  "showResult msg className s =
     s\<lparr>resultArea_text := Some msg, resultArea_class := ''result-area '' @ className\<rparr>"

definition encouragementMessages :: "jsstring list" where
  "encouragementMessages =
     [[0x0623, 0x062D, 0x0633, 0x0646, 0x062A, 0x0021, 0x0020, 0xD83C, 0xDF1F],
      [0x0645, 0x0645, 0x062A, 0x0627, 0x0632, 0x0021, 0x0020, 0xD83D, 0xDC4D],
      [0x0631, 0x0627, 0x0626, 0x0639, 0x0020, 0x062C, 0x062F, 0x0627, 0x064B, 0x0021, 0x0020,
       0xD83C, 0xDF89],
      [0x0639, 0x0645, 0x0644, 0x0020, 0x062C, 0x0645, 0x064A, 0x0644, 0x0021, 0x0020, 0x2728],
      [0x0623, 0x0646, 0x062A, 0x0020, 0x0630, 0x0643, 0x064A, 0x0021, 0x0020, 0xD83E, 0xDDE0]]"

definition randomMessage :: "nat \<Rightarrow> jsstring option" where
  \<comment> \<open>\<open>encouragementMessages[k]\<close>, where \<open>k\<close> is the value of
      \<open>Math.floor(Math.random() * encouragementMessages.length)\<close>; an index past the
      end reads \<open>undefined\<close>, here \<open>None\<close>.\<close>
  "randomMessage k =
     (if k < length encouragementMessages then Some (encouragementMessages ! k) else None)"

definition checkWord_enforcing :: "nat \<Rightarrow> 'a game_scheme \<Rightarrow> outcome \<times> 'a game_scheme" where
  \<comment> \<open>\<open>checkWord\<close> of the first script, which checks the format.\<close>
  "checkWord_enforcing k s =
     (let word = trim (wordInput s);
          s1 = s\<lparr>resultArea_class := ''result-area''\<rparr>
      in if word = [] then (Empty, showResult PleaseEnterWord ''incorrect'' s1)
         else if \<not> isValidWordFormat word
         then (InvalidFormat, showResult ThreeArabicLettersOnly ''incorrect'' s1)
         else if isWordInDictionary s1 word
         then (Correct,
               (showResult (WordCorrect (randomMessage k) word) ''correct'' (updateScore 1 s1))
                 \<lparr>wordInput := []\<rparr>)
         else (Incorrect,
               (showResult (WordNotInDictionary word) ''incorrect'' s1)\<lparr>wordInput := []\<rparr>))"

section \<open>The script with the teacher panel\<close>

definition initGame :: "parse_result \<Rightarrow> fetch_result \<Rightarrow> teacher_game \<Rightarrow> teacher_game" where
  \<comment> \<open>\<open>parsed\<close> is what \<open>JSON.parse\<close> gives for the stored item, and \<open>response\<close> what
      fetching \<open>words.txt\<close> and reading its text give, each when the script asks for it.
      \<open>if (savedDictionary)\<close> fails for \<open>null\<close> and for the empty string. A throw of
      \<open>JSON.parse\<close> or of \<open>fetch\<close> is caught and shown.\<close>
  "initGame parsed response s =
     (let savedDictionary = localStorage s
      in if savedDictionary \<noteq> None \<and> savedDictionary \<noteq> Some []
         then (case parsed of
                 ParsedWords value \<Rightarrow> s\<lparr>dictionary := value\<rparr>
               | SyntaxError \<Rightarrow> s\<lparr>resultArea_text := Some DictionaryLoadFailed\<rparr>)
         else
           (let s1 = s\<lparr>fetched := fetched s @ [''words.txt'']\<rparr>
            in case response of
                 FetchOk text \<Rightarrow> s1\<lparr>dictionary := loadFromText text\<rparr>
               | FetchFailed \<Rightarrow> s1\<lparr>resultArea_text := Some DictionaryLoadFailed\<rparr>))"

definition showTeacherResult :: "message \<Rightarrow> string \<Rightarrow> teacher_game \<Rightarrow> teacher_game" where
  "showTeacherResult msg className s =
     s\<lparr>teacherResultArea_text := Some msg,
       teacherResultArea_class := ''teacher-result-area '' @ className\<rparr>"

definition toggleTeacherPanel :: "teacher_game \<Rightarrow> teacher_game" where
  "toggleTeacherPanel s = s\<lparr>teacherPanel_hidden := \<not> teacherPanel_hidden s\<rparr>"

definition addNewWord :: "bool \<Rightarrow> teacher_game \<Rightarrow> add_outcome \<times> teacher_game" where
  \<comment> \<open>\<open>setItem_ok\<close>: whether \<open>localStorage.setItem\<close> succeeds; when it throws, the
      script catches the error and logs it.\<close>
  "addNewWord setItem_ok s =
     (let newWord = trim (newWordInput s)
      in if newWord = [] then (AddEmpty, showTeacherResult PleaseEnterWord ''teacher-error'' s)
         else if \<not> isValidWordFormat newWord
         then (AddInvalidFormat, showTeacherResult ThreeArabicLettersOnly ''teacher-error'' s)
         else if isWordInDictionary s newWord
         then (AlreadyExists,
               showTeacherResult (WordAlreadyInDictionary newWord) ''teacher-error'' s)
         else
           (let s1 = s\<lparr>dictionary := dictionary s @ [newWord]\<rparr>;
                s2 = showTeacherResult (WordAdded newWord) ''teacher-success'' s1;
                s3 = s2\<lparr>newWordInput := []\<rparr>
            in (Added,
                if setItem_ok then s3\<lparr>localStorage := Some (JSON_stringify (dictionary s3))\<rparr>
                else s3)))"

definition exportDictionary :: "bool \<Rightarrow> teacher_game \<Rightarrow> teacher_game" where
  \<comment> \<open>\<open>download_ok\<close>: whether building and clicking the download link succeeds.\<close>
  "exportDictionary download_ok s =
     (let content = toText (dictionary s)
      in if download_ok
         then showTeacherResult ExportDone ''teacher-success''
                (s\<lparr>downloads := downloads s @ [(''words_updated.txt'', content)]\<rparr>)
         else showTeacherResult ExportFailed ''teacher-error'' s)"

definition handleFileImport ::
  "bool \<Rightarrow> file_read option \<Rightarrow> teacher_game \<Rightarrow> import_outcome \<times> teacher_game" where
  \<comment> \<open>\<open>file\<close>: \<open>None\<close> when no file was chosen, otherwise what reading it as text
      gives. \<open>setItem_ok\<close> as in \<open>addNewWord\<close>; here a throw leaves the \<open>try\<close> block
      after the assignment to \<open>dictionary\<close>.\<close>
  "handleFileImport setItem_ok file s =
     (case file of
        None \<Rightarrow> (NoFile, s)
      | Some ReadFailed \<Rightarrow> (FileReadFailure, showTeacherResult FileReadFailed ''teacher-error'' s)
      | Some (ReadOk content) \<Rightarrow>
          (let importedWords = loadFromText content;
               s1 = s\<lparr>dictionary := importedWords\<rparr>
           in if setItem_ok
              then (Imported (length importedWords),
                    (showTeacherResult (ImportDone (length importedWords)) ''teacher-success''
                       (s1\<lparr>localStorage := Some (JSON_stringify (dictionary s1))\<rparr>))
                      \<lparr>importDictionaryInput := []\<rparr>)
              else (ImportFailure, showTeacherResult ImportFailed ''teacher-error'' s1)))"

definition checkWord :: "nat \<Rightarrow> 'a game_scheme \<Rightarrow> outcome \<times> 'a game_scheme" where
  \<comment> \<open>\<open>checkWord\<close> of the second script: the format check is commented out.\<close>
  "checkWord k s =
     (let word = trim (wordInput s);
          s1 = s\<lparr>resultArea_class := ''result-area''\<rparr>
      in if word = [] then (Empty, showResult PleaseEnterWord ''incorrect'' s1)
         else if isWordInDictionary s1 word
         then (Correct,
               (showResult (WordCorrect (randomMessage k) word) ''correct'' (updateScore 1 s1))
                 \<lparr>wordInput := []\<rparr>)
         else (Incorrect,
               (showResult (WordNotInDictionary word) ''incorrect'' s1)\<lparr>wordInput := []\<rparr>))"

section \<open>Sessions\<close>

text \<open>
  A session starts when the script is loaded: its first lines set \<open>score\<close> to 0 and
  \<open>dictionary\<close> to the empty array, on whatever page the document gives. Then the
  listeners the script registers run, one event at a time. An event carries what the
  user and the browser supply: the text in the input field when the button is clicked or
  Enter is pressed, the random index, the parsed item, the fetched text, the chosen file,
  and whether a storage write or a download succeeds.
\<close>

definition script_start :: "teacher_game \<Rightarrow> teacher_game" where
  "script_start page = page\<lparr>score := 0, dictionary := []\<rparr>"

datatype event =
    DOMContentLoaded parse_result fetch_result
  | Check nat jsstring
  | ToggleTeacher
  | AddWord bool jsstring
  | Export bool
  | ImportFile bool "file_read option"

fun step :: "event \<Rightarrow> teacher_game \<Rightarrow> teacher_game" where
  "step (DOMContentLoaded parsed response) s = initGame parsed response s"
| "step (Check k raw) s = snd (checkWord k (s\<lparr>wordInput := raw\<rparr>))"
| "step ToggleTeacher s = toggleTeacherPanel s"
| "step (AddWord setItem_ok raw) s = snd (addNewWord setItem_ok (s\<lparr>newWordInput := raw\<rparr>))"
| "step (Export download_ok) s = exportDictionary download_ok s"
| "step (ImportFile setItem_ok file) s = snd (handleFileImport setItem_ok file s)"

inductive reachable :: "teacher_game \<Rightarrow> bool" where
  start: "reachable (script_start page)"
| after: "reachable s \<Longrightarrow> reachable (step e s)"

text \<open>A page on which nothing has been typed or shown, and a browser with no stored item.\<close>

definition blank_page :: teacher_game where
  "blank_page =
     \<lparr>score = 0, dictionary = [], wordInput = [], resultArea_text = None,
      resultArea_class = ''result-area'', scoreDisplay = None,
      newWordInput = [], teacherResultArea_text = None,
      teacherResultArea_class = ''teacher-result-area'', teacherPanel_hidden = True,
      importDictionaryInput = [], localStorage = None, fetched = [], downloads = []\<rparr>"

section \<open>Words and texts named in the specification\<close>

definition word_ktb :: jsstring where
  \<comment> \<open>the first entry of \<open>predefinedDictionary\<close>\<close>
  "word_ktb = [0x0643, 0x062A, 0x0628]"

definition word_xyz :: jsstring where
  "word_xyz = [0x0078, 0x0079, 0x007A]"

definition word_kitab :: jsstring where
  \<comment> \<open>the eighteenth entry of \<open>predefinedDictionary\<close>\<close>
  "word_kitab = [0x0643, 0x062A, 0x0627, 0x0628]"

definition word_madrasa :: jsstring where
  \<comment> \<open>the nineteenth entry of \<open>predefinedDictionary\<close>\<close>
  "word_madrasa = [0x0645, 0x062F, 0x0631, 0x0633, 0x0629]"

definition word_talib :: jsstring where
  \<comment> \<open>the twentieth entry of \<open>predefinedDictionary\<close>\<close>
  "word_talib = [0x0637, 0x0627, 0x0644, 0x0628]"

definition word_abj :: jsstring where
  "word_abj = [0x0627, 0x0628, 0x062C]"

definition word_bjd :: jsstring where
  "word_bjd = [0x0628, 0x062C, 0x062F]"

definition import_text :: jsstring where
  \<comment> \<open>the two words, each followed by a newline, then one more newline\<close>
  "import_text = word_abj @ [newline] @ word_bjd @ [newline, newline]"

definition padded_text :: jsstring where
  \<comment> \<open>the same two words with a space before and after the first, a carriage return, an
      empty line and a tab before the second\<close>
  "padded_text =
     [0x0020] @ word_abj @ [0x0020, 0x000D, newline, newline, 0x0009] @ word_bjd @ [newline]"

section \<open>Auxiliary facts\<close>

subsection \<open>Trimming\<close>

lemma arabicClass_not_space: "arabicClass c \<Longrightarrow> \<not> isWhiteSpace c"
  by (auto simp: arabicClass_def isWhiteSpace_def word_le_nat_alt)

lemma trim_id:
  assumes "w \<noteq> []" "\<not> isWhiteSpace (hd w)" "\<not> isWhiteSpace (last w)"
  shows "trim w = w"
proof -
  have left: "dropWhile isWhiteSpace w = w"
    using assms by (cases w) auto
  have "rev w \<noteq> []" "\<not> isWhiteSpace (hd (rev w))"
    using assms by (auto simp: hd_rev)
  then have right: "dropWhile isWhiteSpace (rev w) = rev w"
    by (cases "rev w") auto
  show ?thesis by (simp add: trim_def left right)
qed

lemma trim_valid:
  assumes "isValidWordFormat w"
  shows "trim w = w"
proof -
  from assms have ne: "w \<noteq> []" and cls: "\<forall>c \<in> set w. arabicClass c"
    by (auto simp: isValidWordFormat_def arabicRegex_test_def list_all_iff)
  from ne have "hd w \<in> set w" "last w \<in> set w" by simp_all
  with cls have "\<not> isWhiteSpace (hd w)" "\<not> isWhiteSpace (last w)"
    by (auto dest: arabicClass_not_space)
  with ne show ?thesis by (rule trim_id)
qed

lemma map_trim_id:
  "\<forall>w \<in> set ws. w \<noteq> [] \<and> \<not> isWhiteSpace (hd w) \<and> \<not> isWhiteSpace (last w) \<Longrightarrow>
   map trim ws = ws"
  by (induction ws) (auto simp: trim_id)

subsection \<open>Splitting and joining\<close>

lemma split_no_sep: "sep \<notin> set w \<Longrightarrow> split sep w = [w]"
  by (induction w) auto

lemma split_append_sep: "sep \<notin> set w \<Longrightarrow> split sep (w @ sep # rest) = w # split sep rest"
  by (induction w) (auto split: list.splits)

lemma split_join:
  "ws \<noteq> [] \<Longrightarrow> \<forall>w \<in> set ws. sep \<notin> set w \<Longrightarrow> split sep (join sep ws) = ws"
proof (induction sep ws rule: join.induct)
  case (1 sep)
  then show ?case by simp
next
  case (2 sep x)
  then show ?case by (simp add: split_no_sep)
next
  case (3 sep x y ys)
  then show ?case by (simp add: split_append_sep)
qed

lemma join_not_Nil: "ws \<noteq> [] \<Longrightarrow> \<forall>w \<in> set ws. w \<noteq> [] \<Longrightarrow> join sep ws \<noteq> []"
  by (induction sep ws rule: join.induct) auto

lemma hd_join: "ws \<noteq> [] \<Longrightarrow> hd ws \<noteq> [] \<Longrightarrow> hd (join sep ws) = hd (hd ws)"
  by (induction sep ws rule: join.induct) auto

lemma last_join:
  "ws \<noteq> [] \<Longrightarrow> \<forall>w \<in> set ws. w \<noteq> [] \<Longrightarrow> last (join sep ws) = last (last ws)"
  by (induction sep ws rule: join.induct) (auto simp: join_not_Nil)

subsection \<open>The named words\<close>

lemma ktb_not_Nil: "word_ktb \<noteq> []"
  by (simp add: word_ktb_def)

lemma trim_ktb: "trim word_ktb = word_ktb"
  by (simp add: trim_def word_ktb_def isWhiteSpace_def)

lemma valid_ktb: "isValidWordFormat word_ktb"
  by (simp add: isValidWordFormat_def arabicRegex_test_def arabicClass_def word_ktb_def)

lemma xyz_facts: "trim word_xyz = word_xyz" "word_xyz \<noteq> word_ktb" "word_xyz \<noteq> []"
  by (simp_all add: trim_def word_xyz_def word_ktb_def isWhiteSpace_def)

lemma loadFromText_import_text: "loadFromText import_text = [word_abj, word_bjd]"
  by (simp add: loadFromText_def import_text_def word_abj_def word_bjd_def trim_def
      isWhiteSpace_def newline_def)

lemma loadFromText_padded_text: "loadFromText padded_text = [word_abj, word_bjd]"
  by (simp add: loadFromText_def padded_text_def word_abj_def word_bjd_def trim_def
      isWhiteSpace_def newline_def)

lemma JSON_stringify_not_Nil: "JSON_stringify xs \<noteq> []"
  by (simp add: JSON_stringify_def)

lemma blank_page_simps:
  "dictionary blank_page = []" "localStorage blank_page = None" "score blank_page = 0"
  "fetched blank_page = []"
  by (simp_all add: blank_page_def)

subsection \<open>The score along a session\<close>

lemma score_step:
  "score (step e s) = score s +
     (case e of
        Check k raw \<Rightarrow> if fst (checkWord k (s\<lparr>wordInput := raw\<rparr>)) = Correct then 1 else 0
      | _ \<Rightarrow> 0)"
  by (cases e)
    (auto simp: initGame_def checkWord_def toggleTeacherPanel_def addNewWord_def
      exportDictionary_def handleFileImport_def Let_def showResult_def showTeacherResult_def
      updateScore_def
      split: option.splits fetch_result.splits file_read.splits parse_result.splits)

lemma score_step_mono: "score s \<le> score (step e s)"
  by (simp add: score_step split: event.splits)

lemma reachable_score: "reachable s \<Longrightarrow> 0 \<le> score s"
proof (induction rule: reachable.induct)
  case (start page)
  show ?case by (simp add: script_start_def)
next
  case (after s e)
  from after.IH score_step_mono [of s e] show ?case by linarith
qed

section \<open>Checking a word\<close>

text \<open>
  C1. When the dictionary contains the first default word and that word is the input,
  \<open>checkWord\<close> gives \<open>Correct\<close> and the score grows by exactly 1, in both scripts. When
  the trimmed input is not empty and is not in the dictionary, the score stays as it
  is; the script without the format check gives \<open>Incorrect\<close>, and the script with the
  format check gives \<open>Incorrect\<close> for a trimmed input of valid format and
  \<open>InvalidFormat\<close> otherwise.
\<close>

theorem checkWord_outcomes:
  "(word_ktb \<in> set (dictionary s) \<and> wordInput s = word_ktb \<longrightarrow>
      fst (checkWord k s) = Correct \<and> score (snd (checkWord k s)) = score s + 1 \<and>
      fst (checkWord_enforcing k s) = Correct \<and>
      score (snd (checkWord_enforcing k s)) = score s + 1) \<and>
   (trim (wordInput s) \<noteq> [] \<and> trim (wordInput s) \<notin> set (dictionary s) \<longrightarrow>
      fst (checkWord k s) = Incorrect \<and> score (snd (checkWord k s)) = score s \<and>
      fst (checkWord_enforcing k s) =
        (if isValidWordFormat (trim (wordInput s)) then Incorrect else InvalidFormat) \<and>
      score (snd (checkWord_enforcing k s)) = score s)"
  by (auto simp: checkWord_def checkWord_enforcing_def Let_def isWordInDictionary_def
      showResult_def updateScore_def trim_ktb valid_ktb ktb_not_Nil)

theorem checkWord_outcomes_witness:
  "fst (checkWord 0 (blank_page\<lparr>dictionary := [word_ktb], wordInput := word_ktb\<rparr>)) = Correct \<and>
   score (snd (checkWord 0 (blank_page\<lparr>dictionary := [word_ktb], wordInput := word_ktb\<rparr>))) = 1 \<and>
   fst (checkWord 0 (blank_page\<lparr>dictionary := [word_ktb], wordInput := word_xyz\<rparr>)) = Incorrect \<and>
   fst (checkWord_enforcing 0 (blank_page\<lparr>dictionary := [word_ktb], wordInput := word_xyz\<rparr>))
     = InvalidFormat \<and>
   score (snd (checkWord 0 (blank_page\<lparr>dictionary := [word_ktb], wordInput := word_xyz\<rparr>))) = 0"
  using checkWord_outcomes [of "blank_page\<lparr>dictionary := [word_ktb], wordInput := word_ktb\<rparr>" 0]
    checkWord_outcomes [of "blank_page\<lparr>dictionary := [word_ktb], wordInput := word_xyz\<rparr>" 0]
  by (simp add: blank_page_def word_ktb_def word_xyz_def trim_def isWhiteSpace_def
      isValidWordFormat_def arabicRegex_test_def arabicClass_def)

text \<open>
  An input that is not empty and not in the dictionary need not give \<open>Incorrect\<close>: a
  single space is trimmed to the empty word, and the script with the format check
  rejects the Latin letters before it looks into the dictionary.
\<close>

theorem checkWord_counterexample:
  "[0x0020] \<noteq> ([] :: jsstring) \<and>
   [0x0020] \<notin> set (dictionary (blank_page\<lparr>dictionary := [word_ktb], wordInput := [0x0020]\<rparr>)) \<and>
   fst (checkWord 0 (blank_page\<lparr>dictionary := [word_ktb], wordInput := [0x0020]\<rparr>)) = Empty \<and>
   word_xyz \<noteq> [] \<and>
   word_xyz \<notin> set (dictionary (blank_page\<lparr>dictionary := [word_ktb], wordInput := word_xyz\<rparr>)) \<and>
   fst (checkWord_enforcing 0 (blank_page\<lparr>dictionary := [word_ktb], wordInput := word_xyz\<rparr>))
     = InvalidFormat"
  by (simp add: blank_page_def word_ktb_def word_xyz_def trim_def isWhiteSpace_def
      isValidWordFormat_def arabicRegex_test_def arabicClass_def checkWord_def
      checkWord_enforcing_def Let_def showResult_def)

section \<open>The format predicate\<close>

text \<open>
  C2. \<open>isValidWordFormat\<close> holds of a string exactly when the string has three
  characters and each of them lies in U+0621 to U+064A or in U+0660 to U+0669.
\<close>

theorem isValidWordFormat_iff:
  "isValidWordFormat w \<longleftrightarrow>
     length w = 3 \<and>
     (\<forall>c \<in> set w. (0x0621 \<le> c \<and> c \<le> 0x064A) \<or> (0x0660 \<le> c \<and> c \<le> 0x0669))"
  by (auto simp: isValidWordFormat_def arabicRegex_test_def arabicClass_def list_all_iff)

theorem isValidWordFormat_iff_witness:
  "isValidWordFormat [0x0643, 0x062A, 0x0628] \<and>
   \<not> isValidWordFormat [0x0643, 0x062A, 0x0627, 0x0628] \<and>
   \<not> isValidWordFormat [0x0078, 0x0079, 0x007A]"
  using isValidWordFormat_iff [of "[0x0643, 0x062A, 0x0628]"]
        isValidWordFormat_iff [of "[0x0643, 0x062A, 0x0627, 0x0628]"]
        isValidWordFormat_iff [of "[0x0078, 0x0079, 0x007A]"]
  by simp

section \<open>Text round trip\<close>

text \<open>
  C3. For every sequence of words in which each word is non-empty, neither starts nor ends
  with whitespace, and contains no newline, reading back the exported text gives the
  sequence again.
\<close>

theorem loadFromText_toText:
  assumes "\<forall>w \<in> set words.
             w \<noteq> [] \<and> \<not> isWhiteSpace (hd w) \<and> \<not> isWhiteSpace (last w) \<and> newline \<notin> set w"
  shows "loadFromText (toText words) = words"
proof (cases "words = []")
  case True
  then show ?thesis by (simp add: loadFromText_def toText_def trim_def)
next
  case False
  let ?t = "join newline words"
  have ne: "\<forall>w \<in> set words. w \<noteq> []" using assms by blast
  have "?t \<noteq> []" using False ne by (rule join_not_Nil)
  moreover have "\<not> isWhiteSpace (hd ?t)"
    using False assms by (simp add: hd_join)
  moreover have "\<not> isWhiteSpace (last ?t)"
    using False assms ne by (simp add: last_join)
  ultimately have whole: "trim ?t = ?t" by (rule trim_id)
  have lines: "split newline ?t = words"
    using False assms by (simp add: split_join)
  have each: "map trim words = words"
    using assms by (simp add: map_trim_id)
  have kept: "filter (\<lambda>word. word \<noteq> []) words = words"
    using ne by (simp add: filter_id_conv)
  show ?thesis using kept by (simp add: loadFromText_def toText_def whole lines each)
qed

theorem loadFromText_toText_witness:
  "loadFromText (toText [word_abj, word_bjd]) = [word_abj, word_bjd]"
  using loadFromText_toText [of "[word_abj, word_bjd]"]
  by (simp add: word_abj_def word_bjd_def isWhiteSpace_def newline_def)

text \<open>
  Without the condition on newlines the round trip fails: a word with a newline inside
  has no whitespace at either end, and comes back as two words.
\<close>

theorem loadFromText_toText_counterexample:
  "[0x0061, 0x000A, 0x0062] \<noteq> ([] :: jsstring) \<and>
   \<not> isWhiteSpace (hd [0x0061, 0x000A, 0x0062]) \<and>
   \<not> isWhiteSpace (last [0x0061, 0x000A, 0x0062]) \<and>
   loadFromText (toText [[0x0061, 0x000A, 0x0062]]) = [[0x0061], [0x0062]] \<and>
   loadFromText (toText [[0x0061, 0x000A, 0x0062]]) \<noteq> [[0x0061, 0x000A, 0x0062]]"
  by (simp add: loadFromText_def toText_def trim_def isWhiteSpace_def newline_def)

section \<open>Adding a word\<close>

text \<open>
  C4. For a word of valid format that is not in the dictionary, \<open>addNewWord\<close> succeeds
  and the word is then in the dictionary; adding the same word again fails with
  \<open>AlreadyExists\<close> and leaves the dictionary as the first addition left it.
\<close>

theorem addNewWord_twice:
  assumes "isValidWordFormat w" and "w \<notin> set (dictionary s)"
  shows "fst (addNewWord ok1 (s\<lparr>newWordInput := w\<rparr>)) = Added \<and>
    isWordInDictionary (snd (addNewWord ok1 (s\<lparr>newWordInput := w\<rparr>))) w \<and>
    dictionary (snd (addNewWord ok1 (s\<lparr>newWordInput := w\<rparr>))) = dictionary s @ [w] \<and>
    fst (addNewWord ok2 ((snd (addNewWord ok1 (s\<lparr>newWordInput := w\<rparr>)))\<lparr>newWordInput := w\<rparr>))
      = AlreadyExists \<and>
    dictionary
      (snd (addNewWord ok2 ((snd (addNewWord ok1 (s\<lparr>newWordInput := w\<rparr>)))\<lparr>newWordInput := w\<rparr>)))
      = dictionary s @ [w]"
proof -
  have t: "trim w = w" using assms(1) by (rule trim_valid)
  have ne: "w \<noteq> []" using assms(1) by (auto simp: isValidWordFormat_def)
  show ?thesis
    using assms ne
    by (simp add: addNewWord_def Let_def t isWordInDictionary_def showTeacherResult_def)
qed

theorem addNewWord_twice_witness:
  "isValidWordFormat word_ktb \<and> word_ktb \<notin> set (dictionary blank_page) \<and>
   fst (addNewWord True (blank_page\<lparr>newWordInput := word_ktb\<rparr>)) = Added \<and>
   dictionary (snd (addNewWord True (blank_page\<lparr>newWordInput := word_ktb\<rparr>))) = [word_ktb] \<and>
   fst (addNewWord True
     ((snd (addNewWord True (blank_page\<lparr>newWordInput := word_ktb\<rparr>)))\<lparr>newWordInput := word_ktb\<rparr>))
     = AlreadyExists"
proof -
  have h1: "isValidWordFormat word_ktb" by (rule valid_ktb)
  have h2: "word_ktb \<notin> set (dictionary blank_page)" by (simp add: blank_page_def)
  show ?thesis
    using h1 h2 addNewWord_twice [OF h1 h2, of True True]
    by (simp add: blank_page_def)
qed

section \<open>Importing a file\<close>



section \<open>A failed write to storage\<close>

text \<open>
  C6. When the write to storage fails, \<open>addNewWord\<close> and \<open>handleFileImport\<close> leave the
  same dictionary in memory as when it succeeds: the added word is at the end of the
  dictionary, and the dictionary is the imported sequence; only the stored item stays
  as it was.
\<close>

theorem persist_failure_keeps_mutation:
  "fst (addNewWord False s) = fst (addNewWord True s) \<and>
   dictionary (snd (addNewWord False s)) = dictionary (snd (addNewWord True s)) \<and>
   (fst (addNewWord False s) = Added \<longrightarrow>
      dictionary (snd (addNewWord False s)) = dictionary s @ [trim (newWordInput s)] \<and>
      isWordInDictionary (snd (addNewWord False s)) (trim (newWordInput s)) \<and>
      localStorage (snd (addNewWord False s)) = localStorage s) \<and>
   dictionary (snd (handleFileImport False (Some (ReadOk content)) s)) = loadFromText content \<and>
   dictionary (snd (handleFileImport True (Some (ReadOk content)) s)) = loadFromText content \<and>
   localStorage (snd (handleFileImport False (Some (ReadOk content)) s)) = localStorage s"
  by (simp add: addNewWord_def handleFileImport_def Let_def showTeacherResult_def
      isWordInDictionary_def)

theorem persist_failure_keeps_mutation_witness:
  "fst (addNewWord False (blank_page\<lparr>newWordInput := word_ktb\<rparr>)) = Added \<and>
   dictionary (snd (addNewWord False (blank_page\<lparr>newWordInput := word_ktb\<rparr>))) = [word_ktb] \<and>
   localStorage (snd (addNewWord False (blank_page\<lparr>newWordInput := word_ktb\<rparr>))) = None \<and>
   dictionary (snd (handleFileImport False (Some (ReadOk import_text)) blank_page))
     = [word_abj, word_bjd]"
proof -
  have h: "fst (addNewWord False (blank_page\<lparr>newWordInput := word_ktb\<rparr>)) = Added"
    by (simp add: addNewWord_def Let_def trim_ktb valid_ktb ktb_not_Nil isWordInDictionary_def
        blank_page_def)
  show ?thesis
    using h persist_failure_keeps_mutation [of "blank_page\<lparr>newWordInput := word_ktb\<rparr>" import_text]
      persist_failure_keeps_mutation [of blank_page import_text]
    by (auto simp: trim_ktb blank_page_simps loadFromText_import_text)
qed

section \<open>Start-up\<close>

text \<open>
  C7. In the script with the teacher panel: when a non-empty item is stored under the key,
  \<open>initGame\<close> does not fetch the word list; it takes the dictionary from what
  \<open>JSON.parse\<close> returns for the item, and when \<open>JSON.parse\<close> throws it leaves the
  dictionary as it is and shows the load error. When no item is stored, or the stored
  item is the empty string, it fetches \<open>words.txt\<close> and takes the trimmed, non-empty
  lines of the trimmed text; a failed fetch leaves the dictionary as it is and shows the
  load error. The script without the teacher panel takes the predefined list, whatever
  is stored.
\<close>

theorem initGame_sources:
  "(localStorage s = Some item \<and> item \<noteq> [] \<longrightarrow>
      fetched (initGame parsed response s) = fetched s \<and>
      (parsed = ParsedWords ws \<longrightarrow> dictionary (initGame parsed response s) = ws) \<and>
      (parsed = SyntaxError \<longrightarrow>
         dictionary (initGame parsed response s) = dictionary s \<and>
         resultArea_text (initGame parsed response s) = Some DictionaryLoadFailed)) \<and>
   (localStorage s = None \<or> localStorage s = Some [] \<longrightarrow>
      fetched (initGame parsed response s) = fetched s @ [''words.txt''] \<and>
      (response = FetchOk text \<longrightarrow>
         dictionary (initGame parsed response s) =
           filter (\<lambda>line. line \<noteq> []) (map trim (split newline (trim text)))) \<and>
      (response = FetchFailed \<longrightarrow>
         dictionary (initGame parsed response s) = dictionary s \<and>
         resultArea_text (initGame parsed response s) = Some DictionaryLoadFailed)) \<and>
   dictionary (initGame_predefined g) = predefinedDictionary"
proof -
  have stored: "localStorage s = Some item \<and> item \<noteq> [] \<longrightarrow>
      fetched (initGame parsed response s) = fetched s \<and>
      (parsed = ParsedWords ws \<longrightarrow> dictionary (initGame parsed response s) = ws) \<and>
      (parsed = SyntaxError \<longrightarrow>
         dictionary (initGame parsed response s) = dictionary s \<and>
         resultArea_text (initGame parsed response s) = Some DictionaryLoadFailed)"
    by (auto simp: initGame_def Let_def split: parse_result.splits)
  have absent: "localStorage s = None \<or> localStorage s = Some [] \<longrightarrow>
      fetched (initGame parsed response s) = fetched s @ [''words.txt''] \<and>
      (response = FetchOk text \<longrightarrow>
         dictionary (initGame parsed response s) =
           filter (\<lambda>line. line \<noteq> []) (map trim (split newline (trim text)))) \<and>
      (response = FetchFailed \<longrightarrow>
         dictionary (initGame parsed response s) = dictionary s \<and>
         resultArea_text (initGame parsed response s) = Some DictionaryLoadFailed)"
    by (auto simp: initGame_def Let_def loadFromText_def split: fetch_result.splits)
  have predefined: "dictionary (initGame_predefined g) = predefinedDictionary"
    by (simp add: initGame_predefined_def)
  from stored absent predefined show ?thesis by blast
qed

theorem initGame_sources_witness:
  "dictionary (initGame (ParsedWords [word_ktb]) (FetchOk padded_text)
     (blank_page\<lparr>localStorage := Some (JSON_stringify [word_ktb])\<rparr>)) = [word_ktb] \<and>
   fetched (initGame (ParsedWords [word_ktb]) (FetchOk padded_text)
     (blank_page\<lparr>localStorage := Some (JSON_stringify [word_ktb])\<rparr>)) = [] \<and>
   dictionary (initGame SyntaxError (FetchOk padded_text) blank_page) = [word_abj, word_bjd] \<and>
   fetched (initGame SyntaxError (FetchOk padded_text) blank_page) = [''words.txt''] \<and>
   dictionary (initGame SyntaxError FetchFailed (blank_page\<lparr>localStorage := Some []\<rparr>)) = [] \<and>
   fetched (initGame SyntaxError FetchFailed (blank_page\<lparr>localStorage := Some []\<rparr>))
     = [''words.txt'']"
proof -
  let ?stored = "blank_page\<lparr>localStorage := Some (JSON_stringify [word_ktb])\<rparr>"
  let ?empty = "blank_page\<lparr>localStorage := Some []\<rparr>"
  have h1: "localStorage ?stored = Some (JSON_stringify [word_ktb]) \<and> JSON_stringify [word_ktb] \<noteq> []"
    by (simp add: JSON_stringify_not_Nil)
  have h2: "localStorage blank_page = None \<or> localStorage blank_page = Some []"
    by (simp add: blank_page_simps)
  have h3: "localStorage ?empty = None \<or> localStorage ?empty = Some []"
    by simp
  have lines: "filter (\<lambda>line. line \<noteq> []) (map trim (split newline (trim padded_text)))
    = [word_abj, word_bjd]"
    using loadFromText_padded_text by (simp add: loadFromText_def)
  show ?thesis
    using h1 h2 h3 lines
      initGame_sources [of ?stored "JSON_stringify [word_ktb]" "ParsedWords [word_ktb]"
        "FetchOk padded_text" "[word_ktb]" padded_text blank_page]
      initGame_sources [of blank_page "[]" SyntaxError "FetchOk padded_text" "[]" padded_text
        blank_page]
      initGame_sources [of ?empty "[]" SyntaxError FetchFailed "[]" padded_text blank_page]
    by (simp add: blank_page_simps)
qed

text \<open>
  A stored item does not always become the dictionary. The empty string is stored and
  the word list is fetched all the same; the text \<open>xyz\<close> is stored, \<open>JSON.parse\<close>
  throws on it, and the dictionary stays empty; and the script without the teacher
  panel, on a browser that holds an item with one word, takes the predefined list.
\<close>

theorem initGame_sources_counterexample:
  "fetched (initGame SyntaxError (FetchOk import_text) (blank_page\<lparr>localStorage := Some []\<rparr>))
     = [''words.txt''] \<and>
   dictionary (initGame SyntaxError (FetchOk import_text) (blank_page\<lparr>localStorage := Some []\<rparr>))
     = [word_abj, word_bjd] \<and>
   dictionary (initGame SyntaxError (FetchOk import_text)
     (blank_page\<lparr>localStorage := Some word_xyz\<rparr>)) = [] \<and>
   resultArea_text (initGame SyntaxError (FetchOk import_text)
     (blank_page\<lparr>localStorage := Some word_xyz\<rparr>)) = Some DictionaryLoadFailed \<and>
   localStorage (blank_page\<lparr>localStorage := Some (JSON_stringify [word_abj])\<rparr>)
     = Some (JSON_stringify [word_abj]) \<and>
   dictionary (initGame_predefined
     (blank_page\<lparr>localStorage := Some (JSON_stringify [word_abj])\<rparr>)) = predefinedDictionary \<and>
   predefinedDictionary \<noteq> [word_abj]"
  by (simp add: initGame_def Let_def loadFromText_import_text blank_page_simps word_xyz_def
      initGame_predefined_def predefinedDictionary_def)

section \<open>The score\<close>

text \<open>
  C8. The score is 0 when the script starts and is never negative in a reachable state.
  An event changes it only by the 1 that \<open>checkWord\<close> adds on a \<open>Correct\<close> outcome;
  \<open>updateScore\<close> itself adds whatever amount it is given.
\<close>

theorem score_never_negative:
  "score (script_start page) = 0 \<and>
   (reachable s \<longrightarrow> 0 \<le> score s) \<and>
   score (step e s) = score s +
     (case e of
        Check k raw \<Rightarrow> if fst (checkWord k (s\<lparr>wordInput := raw\<rparr>)) = Correct then 1 else 0
      | _ \<Rightarrow> 0) \<and>
   score (updateScore points s) = score s + points"
  by (simp add: reachable_score score_step script_start_def updateScore_def)

theorem score_never_negative_witness:
  "reachable (step (Check 0 word_ktb) (step (AddWord True word_ktb) (script_start blank_page))) \<and>
   0 \<le> score (step (Check 0 word_ktb) (step (AddWord True word_ktb) (script_start blank_page))) \<and>
   score (step (Check 0 word_ktb) (step (AddWord True word_ktb) (script_start blank_page))) = 1 \<and>
   score (step (Check 0 word_xyz) (step (AddWord True word_ktb) (script_start blank_page))) = 0"
proof -
  let ?s1 = "step (AddWord True word_ktb) (script_start blank_page)"
  let ?s2 = "step (Check 0 word_ktb) ?s1"
  have r: "reachable ?s2"
    by (intro reachable.after reachable.start)
  have a: "dictionary ?s1 = [word_ktb]" "score ?s1 = 0"
    by (simp_all add: addNewWord_def Let_def trim_ktb valid_ktb ktb_not_Nil
        isWordInDictionary_def script_start_def showTeacherResult_def)
  show ?thesis
    using r score_never_negative [of blank_page ?s2 "Check 0 word_ktb" 1]
      score_never_negative [of blank_page ?s1 "Check 0 word_ktb" 1]
      score_never_negative [of blank_page ?s1 "Check 0 word_xyz" 1]
    by (simp add: a xyz_facts checkWord_def Let_def trim_ktb ktb_not_Nil isWordInDictionary_def
        del: step.simps)
qed

section \<open>Default words of more than three letters\<close>

text \<open>
  C9. Three entries of the predefined dictionary have more than three letters and fail
  \<open>isValidWordFormat\<close>, and no other entry does. For each of the three the script with
  the format check gives \<open>InvalidFormat\<close>, never \<open>Correct\<close>, and leaves the score,
  although the word is in the dictionary.
\<close>

theorem long_defaults_invalid:
  assumes "w = word_kitab \<or> w = word_madrasa \<or> w = word_talib"
    and "trim (wordInput s) = w"
  shows "isWordInDictionary (initGame_predefined s0) w \<and> \<not> isValidWordFormat w \<and>
    fst (checkWord_enforcing k s) = InvalidFormat \<and>
    score (snd (checkWord_enforcing k s)) = score s \<and>
    filter (\<lambda>v. \<not> isValidWordFormat v) predefinedDictionary
      = [word_kitab, word_madrasa, word_talib]"
  using assms
  by (auto simp: isWordInDictionary_def initGame_predefined_def predefinedDictionary_def
      isValidWordFormat_def arabicRegex_test_def arabicClass_def checkWord_enforcing_def
      Let_def showResult_def word_kitab_def word_madrasa_def word_talib_def)

theorem long_defaults_invalid_witness:
  "trim (wordInput (initGame_predefined (blank_page\<lparr>wordInput := word_kitab\<rparr>))) = word_kitab \<and>
   isWordInDictionary (initGame_predefined (blank_page\<lparr>wordInput := word_kitab\<rparr>)) word_kitab \<and>
   fst (checkWord_enforcing 0 (initGame_predefined (blank_page\<lparr>wordInput := word_kitab\<rparr>)))
     = InvalidFormat"
proof -
  have h: "trim (wordInput (initGame_predefined (blank_page\<lparr>wordInput := word_kitab\<rparr>)))
    = word_kitab"
    by (simp add: initGame_predefined_def trim_def word_kitab_def isWhiteSpace_def)
  show ?thesis
    using h long_defaults_invalid [OF _ h, of "blank_page\<lparr>wordInput := word_kitab\<rparr>" 0]
    by simp
qed

section \<open>The random choice\<close>

text \<open>
  C10. Two calls of \<open>checkWord\<close> on states with the same input and the same dictionary
  give the same outcome and change the score by the same amount, whatever the random
  indices. On one state, two random indices give states that differ at most in the text
  shown, and that text holds the random phrase only in the message for a correct word.
\<close>

theorem random_choice_only_in_message:
  assumes "wordInput s = wordInput t" and "dictionary s = dictionary t"
  shows "fst (checkWord k1 s) = fst (checkWord k2 t) \<and>
    score (snd (checkWord k1 s)) - score s = score (snd (checkWord k2 t)) - score t \<and>
    snd (checkWord k1 s) =
      (snd (checkWord k2 s))\<lparr>resultArea_text := resultArea_text (snd (checkWord k1 s))\<rparr> \<and>
    resultArea_text (snd (checkWord k1 s)) =
      Some (case fst (checkWord k1 s) of
              Empty \<Rightarrow> PleaseEnterWord
            | InvalidFormat \<Rightarrow> ThreeArabicLettersOnly
            | Correct \<Rightarrow> WordCorrect (randomMessage k1) (trim (wordInput s))
            | Incorrect \<Rightarrow> WordNotInDictionary (trim (wordInput s))) \<and>
    fst (checkWord_enforcing k1 s) = fst (checkWord_enforcing k2 t) \<and>
    score (snd (checkWord_enforcing k1 s)) - score s
      = score (snd (checkWord_enforcing k2 t)) - score t \<and>
    snd (checkWord_enforcing k1 s) =
      (snd (checkWord_enforcing k2 s))
        \<lparr>resultArea_text := resultArea_text (snd (checkWord_enforcing k1 s))\<rparr>"
  using assms
  by (simp add: checkWord_def checkWord_enforcing_def Let_def showResult_def updateScore_def
      isWordInDictionary_def)

theorem random_choice_only_in_message_witness:
  "fst (checkWord 0 (blank_page\<lparr>dictionary := [word_ktb], wordInput := word_ktb\<rparr>)) =
     fst (checkWord 3 (blank_page\<lparr>dictionary := [word_ktb], wordInput := word_ktb, score := 5\<rparr>)) \<and>
   score (snd (checkWord 0 (blank_page\<lparr>dictionary := [word_ktb], wordInput := word_ktb\<rparr>))) = 1 \<and>
   score (snd (checkWord 3
     (blank_page\<lparr>dictionary := [word_ktb], wordInput := word_ktb, score := 5\<rparr>))) = 6 \<and>
   resultArea_text (snd (checkWord 0 (blank_page\<lparr>dictionary := [word_ktb], wordInput := word_ktb\<rparr>)))
     \<noteq> resultArea_text (snd (checkWord 3
           (blank_page\<lparr>dictionary := [word_ktb], wordInput := word_ktb\<rparr>)))"
proof -
  let ?s = "blank_page\<lparr>dictionary := [word_ktb], wordInput := word_ktb\<rparr>"
  let ?t = "blank_page\<lparr>dictionary := [word_ktb], wordInput := word_ktb, score := 5\<rparr>"
  have h1: "wordInput ?s = wordInput ?t" by simp
  have h2: "dictionary ?s = dictionary ?t" by simp
  have h3: "wordInput ?s = wordInput ?s" by simp
  have h4: "dictionary ?s = dictionary ?s" by simp
  have c: "fst (checkWord 0 ?s) = Correct" "fst (checkWord 3 ?s) = Correct"
    "score (snd (checkWord 0 ?s)) = 1"
    by (simp_all add: checkWord_def Let_def trim_ktb ktb_not_Nil isWordInDictionary_def
        showResult_def updateScore_def blank_page_simps)
  have r: "randomMessage 0 \<noteq> randomMessage 3"
    by (simp add: randomMessage_def encouragementMessages_def)
  show ?thesis
    using random_choice_only_in_message [OF h1 h2, of 0 3]
      random_choice_only_in_message [OF h3 h4, of 3 0] c r
    by (simp add: blank_page_simps)
qed

end
